theory Spec2Isabelle
  imports Main
begin

section \<open>The Zephyr for JIRA client (src/zephyr/zephyr.py)\<close>

text \<open>
  The module is a thin client over an HTTP session (\<^verbatim>\<open>requests.Session\<close>) and the
  \<^verbatim>\<open>jira\<close> library. Both are outside the repository, as are the modules
  \<^verbatim>\<open>config\<close> and \<^verbatim>\<open>resources\<close>. The embedding keeps every method of the class
  \<^verbatim>\<open>Zephyr\<close> as a function that takes the client object and the trace of external calls
  made so far, and returns the Python result (an exception is \<open>Inl\<close>), the client object
  where the method assigns to it, and the extended trace. What the outside world answers
  is a parameter: a record of functions that may depend on the trace, so that a server may
  answer the same request differently the second time.
\<close>

subsection \<open>Values that cross the boundary\<close>

text \<open>
  A parsed JSON document, as \<^verbatim>\<open>response.json()\<close> returns it: \<^verbatim>\<open>None\<close>, a bool, a number
  (integers only here), a string, a list, or a dict in key order.
\<close>

datatype jvalue =
    JNull
  | JBool bool
  | JNum int
  | JStr string
  | JArr "jvalue list"
  | JObj "(string \<times> jvalue) list"

text \<open>
  \<^verbatim>\<open>response.content\<close> is \<^verbatim>\<open>bytes\<close> under Python 3 and \<^verbatim>\<open>str\<close> for a Python 2 session or
  a test double; the two behave differently under \<^verbatim>\<open>'errorDesc' in response.content\<close>.
\<close>

datatype body = Text string | Bytes string

text \<open>
  The part of \<^verbatim>\<open>requests.Response\<close> the module reads: \<^verbatim>\<open>status_code\<close>, \<^verbatim>\<open>content\<close>, and
  the outcome of \<^verbatim>\<open>json()\<close> (\<open>None\<close> when the body does not parse and \<^verbatim>\<open>json()\<close> raises
  \<^verbatim>\<open>ValueError\<close>).
\<close>

record response =
  status_code :: int
  content :: body
  json :: "jvalue option"

text \<open>
  The exceptions the module can end in. \<^verbatim>\<open>JIRAError\<close> carries the response it was raised
  with, if any; \<^verbatim>\<open>TransportError\<close> stands for whatever the HTTP session or the discovery
  session raises.
\<close>

datatype error =
    JIRAError "response option"
  | AttributeError
  | ValueError
  | IndexError
  | TypeError
  | TransportError
  | FormatNotModelled

text \<open>External calls, in the order they are made.\<close>

datatype event =
    HttpGet string
  | HttpPut string "(string \<times> jvalue) list"
  | RaiseOnError "response option"
  | JiraOpen string
  | JiraProjects
  | JiraClose

type_synonym trace = "event list"

subsection \<open>The resources module and the session\<close>

text \<open>
  \<^verbatim>\<open>requests.Session\<close> as far as the constructor sets it: the headers, the credential pair
  and the TLS flag.
\<close>

record session =
  headers :: "(string \<times> string) list"
  auth :: "string \<times> string"
  verify :: bool

text \<open>
  \<^verbatim>\<open>resources.Project(name, id_, session)\<close>, \<^verbatim>\<open>resources.Folder\<close> with the attributes
  \<^verbatim>\<open>project\<close>, \<^verbatim>\<open>version\<close>, \<^verbatim>\<open>cycle\<close>, \<^verbatim>\<open>id_\<close> that \<^verbatim>\<open>move_executions\<close> reads, and
  \<^verbatim>\<open>resources.Execution\<close> with its \<^verbatim>\<open>id\<close>. The fields carry a prefix because record fields
  share one name space. Identifiers are integers.
\<close>

record project_res =
  name :: string
  p_id :: int
  p_session :: session

record folder =
  f_project :: int
  f_version :: int
  f_cycle :: int
  f_id :: int

record execution =
  e_id :: int

text \<open>An entry of \<^verbatim>\<open>jira_session.projects()\<close>: its \<^verbatim>\<open>key\<close> and its \<^verbatim>\<open>id\<close>.\<close>

record jira_project =
  key :: string
  jp_id :: int

subsection \<open>The environment\<close>

text \<open>
  The constants of \<^verbatim>\<open>config\<close>, the two requests of the HTTP session, the check
  \<^verbatim>\<open>jira.resilientsession.raise_on_error\<close> (\<open>Some e\<close> when it raises \<open>e\<close>), and the three
  steps of discovery: \<^verbatim>\<open>jira.JIRA(...)\<close>, \<^verbatim>\<open>projects()\<close> and \<^verbatim>\<open>close()\<close>.
\<close>

record env =
  SERVER :: string
  USER :: string
  PASSWORD :: string
  VERIFY :: bool
  TIMEOUT :: int
  session_get :: "trace \<Rightarrow> session \<Rightarrow> string \<Rightarrow> (string \<times> string) list option \<Rightarrow> int
                  \<Rightarrow> error + response"
  session_put :: "trace \<Rightarrow> session \<Rightarrow> string \<Rightarrow> (string \<times> jvalue) list \<Rightarrow> int
                  \<Rightarrow> error + response"
  lib_raise_on_error :: "response option \<Rightarrow> error option"
  jira_open :: "trace \<Rightarrow> string \<Rightarrow> string \<times> string \<Rightarrow> int \<Rightarrow> error option"
  jira_projects :: "trace \<Rightarrow> error + jira_project list"
  jira_close :: "trace \<Rightarrow> error option"

subsection \<open>Python primitives\<close>

text \<open>
  \<^verbatim>\<open>str.format\<close> with positional arguments, for templates whose only fields are \<^verbatim>\<open>{}\<close>:
  each field takes the next argument and a field with no argument left raises
  \<^verbatim>\<open>IndexError\<close>; arguments left over are ignored. The doubled braces are literals. Field
  names and format specifications do not occur in this module and are not modelled.
\<close>

fun format_py :: "string \<Rightarrow> string list \<Rightarrow> error + string" where
  "format_py [] args = Inr []"
| "format_py [c] args =
     (if c = CHR ''{'' \<or> c = CHR ''}'' then Inl ValueError else Inr [c])"
| "format_py (c # d # t) args =
     (if c = CHR ''{'' \<and> d = CHR ''}'' then
        (case args of
           [] \<Rightarrow> Inl IndexError
         | a # rest \<Rightarrow>
             (case format_py t rest of Inl e \<Rightarrow> Inl e | Inr s \<Rightarrow> Inr (a @ s)))
      else if (c = CHR ''{'' \<and> d = CHR ''{'') \<or> (c = CHR ''}'' \<and> d = CHR ''}'') then
        (case format_py t args of Inl e \<Rightarrow> Inl e | Inr s \<Rightarrow> Inr (c # s))
      else if c = CHR ''}'' then Inl ValueError
      else if c = CHR ''{'' then Inl FormatNotModelled
      else
        (case format_py (d # t) args of Inl e \<Rightarrow> Inl e | Inr s \<Rightarrow> Inr (c # s)))"

text \<open>\<^verbatim>\<open>str(n)\<close> for an integer: decimal digits, with a minus sign.\<close>

fun digits :: "nat \<Rightarrow> string" where
  "digits n =
     (if n < 10 then [''0123456789'' ! n]
      else digits (n div 10) @ [''0123456789'' ! (n mod 10)])"

declare digits.simps [simp del]

definition str_int :: "int \<Rightarrow> string" where
  "str_int i = (if i < 0 then CHR ''-'' # digits (nat (- i)) else digits (nat i))"

text \<open>Python truthiness of a parsed JSON value, as \<^verbatim>\<open>if error:\<close> tests it.\<close>

fun truthy :: "jvalue \<Rightarrow> bool" where
  "truthy JNull = False"
| "truthy (JBool b) = b"
| "truthy (JNum n) = (n \<noteq> 0)"
| "truthy (JStr s) = (s \<noteq> [])"
| "truthy (JArr xs) = (xs \<noteq> [])"
| "truthy (JObj kvs) = (kvs \<noteq> [])"

text \<open>
  \<^verbatim>\<open>value.get(key)\<close>: on a dict the entry, or \<^verbatim>\<open>None\<close> when the key is missing; every other
  JSON value has no attribute \<^verbatim>\<open>get\<close>.
\<close>

fun py_get :: "jvalue \<Rightarrow> string \<Rightarrow> error + jvalue" where
  "py_get (JObj kvs) k = Inr (case map_of kvs k of None \<Rightarrow> JNull | Some v \<Rightarrow> v)"
| "py_get _ k = Inl AttributeError"

text \<open>Substring test on character lists.\<close>

fun starts_with :: "string \<Rightarrow> string \<Rightarrow> bool" where
  "starts_with [] s = True"
| "starts_with (p # ps) [] = False"
| "starts_with (p # ps) (c # cs) = (p = c \<and> starts_with ps cs)"

fun contains :: "string \<Rightarrow> string \<Rightarrow> bool" where
  "contains p [] = (p = [])"
| "contains p (c # cs) = (starts_with p (c # cs) \<or> contains p cs)"

text \<open>
  \<^verbatim>\<open>marker in content\<close> with a \<^verbatim>\<open>str\<close> marker: a substring test on \<^verbatim>\<open>str\<close> content, and a
  \<^verbatim>\<open>TypeError\<close> on \<^verbatim>\<open>bytes\<close> content.
\<close>

fun py_in :: "string \<Rightarrow> body \<Rightarrow> error + bool" where
  "py_in p (Text s) = Inr (contains p s)"
| "py_in p (Bytes s) = Inl TypeError"

text \<open>The characters of a body, whatever its Python type.\<close>

fun raw :: "body \<Rightarrow> string" where
  "raw (Text s) = s"
| "raw (Bytes s) = s"

subsection \<open>Module constants\<close>

definition HEADERS :: "(string \<times> string) list" where
  "HEADERS = [(''Content-Type'', ''application/json'')]"

definition ZAPI_URL :: string where
  "ZAPI_URL = ''{}/rest/zapi/latest/''"

definition EMPTY_CYCLES_REQUEST :: string where
  "EMPTY_CYCLES_REQUEST = ZAPI_URL @ ''cycle?expand=''"

definition EXECUTIONS_URL :: string where
  "EXECUTIONS_URL = ZAPI_URL @ ''execution/?projectId={}&versionId={}&cycleId={}&folderId={}''"

definition EXECUTIONS_ZQL_URL :: string where
  "EXECUTIONS_ZQL_URL = ZAPI_URL @ ''zql/executeSearch?zqlQuery={}''"

definition MOVE_EXEUCTIONS_URL :: string where
  "MOVE_EXEUCTIONS_URL = ZAPI_URL @ ''cycle/{}/move/executions/folder/{}''"

definition ERROR_DESC :: string where
  "ERROR_DESC = ''errorDesc''"

subsection \<open>The client\<close>

text \<open>
  The attributes \<^verbatim>\<open>__init__\<close> assigns: \<^verbatim>\<open>server\<close>, \<^verbatim>\<open>timeout\<close>, \<^verbatim>\<open>_session\<close> and
  \<^verbatim>\<open>_projects\<close> (\<open>None\<close> is the uninitialized state).
\<close>

record zephyr =
  server :: string
  timeout :: int
  z_session :: session
  z_projects :: "project_res list option"

text \<open>
  \<^verbatim>\<open>get\<close> (lines 99-104): the request, the library's check on the response, then the
  \<^verbatim>\<open>errorDesc\<close> entry of the parsed body. The method has no \<^verbatim>\<open>return\<close>: when nothing
  raises, its value is \<^verbatim>\<open>None\<close>.
\<close>

definition get :: "env \<Rightarrow> string \<Rightarrow> (string \<times> string) list option \<Rightarrow> zephyr \<Rightarrow> trace
                   \<Rightarrow> (error + response option) \<times> trace" where
  "get E url params z tr =
     (case session_get E tr (z_session z) url params (timeout z) of
        Inl e \<Rightarrow> (Inl e, tr @ [HttpGet url])
      | Inr response \<Rightarrow>
          (let tr' = tr @ [HttpGet url, RaiseOnError (Some response)] in
           case lib_raise_on_error E (Some response) of
             Some e \<Rightarrow> (Inl e, tr')
           | None \<Rightarrow>
               (case json response of
                  None \<Rightarrow> (Inl ValueError, tr')
                | Some j \<Rightarrow>
                    (case py_get j ERROR_DESC of
                       Inl e \<Rightarrow> (Inl e, tr')
                     | Inr err \<Rightarrow>
                         if truthy err then (Inl (JIRAError None), tr')
                         else (Inr None, tr')))))"

text \<open>
  \<^verbatim>\<open>executions_zql\<close> (lines 86-97): the URL from \<^verbatim>\<open>self.server\<close> and the query, \<^verbatim>\<open>get\<close>, then
  \<^verbatim>\<open>response.json()\<close> on what \<^verbatim>\<open>get\<close> returned; \<^verbatim>\<open>None\<close> has no attribute \<^verbatim>\<open>json\<close>.
\<close>

definition executions_zql :: "env \<Rightarrow> string \<Rightarrow> zephyr \<Rightarrow> trace \<Rightarrow> (error + jvalue) \<times> trace" where
  "executions_zql E query z tr =
     (case format_py EXECUTIONS_ZQL_URL [server z, query] of
        Inl e \<Rightarrow> (Inl e, tr)
      | Inr url \<Rightarrow>
          (case get E url None z tr of
             (Inl e, tr') \<Rightarrow> (Inl e, tr')
           | (Inr None, tr') \<Rightarrow> (Inl AttributeError, tr')
           | (Inr (Some r), tr') \<Rightarrow>
               (case json r of None \<Rightarrow> (Inl ValueError, tr') | Some j \<Rightarrow> (Inr j, tr'))))"

text \<open>\<^verbatim>\<open>put\<close> (lines 106-107): the request; the response comes back unchecked.\<close>

definition put :: "env \<Rightarrow> string \<Rightarrow> (string \<times> jvalue) list \<Rightarrow> zephyr \<Rightarrow> trace
                   \<Rightarrow> (error + response) \<times> trace" where
  "put E url data z tr =
     (session_put E tr (z_session z) url data (timeout z), tr @ [HttpPut url data])"

text \<open>
  \<^verbatim>\<open>move_executions\<close> (lines 109-117): the URL is formatted from the cycle and the folder
  id, two arguments; then the ids of the executions, the payload, the PUT, and the test of
  the status.
\<close>

definition move_executions :: "env \<Rightarrow> execution list \<Rightarrow> folder \<Rightarrow> zephyr \<Rightarrow> trace
                               \<Rightarrow> (error + unit) \<times> trace" where
  "move_executions E executions fld z tr =
     (case format_py MOVE_EXEUCTIONS_URL [str_int (f_cycle fld), str_int (f_id fld)] of
        Inl e \<Rightarrow> (Inl e, tr)
      | Inr url \<Rightarrow>
          (let ids = map e_id executions;
               payload = [(''projectId'', JNum (f_project fld)),
                          (''versionId'', JNum (f_version fld)),
                          (''schedulesList'', JArr (map JNum ids))]
           in case put E url payload z tr of
                (Inl e, tr') \<Rightarrow> (Inl e, tr')
              | (Inr response, tr') \<Rightarrow>
                  if status_code response \<noteq> 200 then (Inl (JIRAError (Some response)), tr')
                  else (Inr (), tr')))"

text \<open>
  \<^verbatim>\<open>_check_connection\<close> (lines 119-128): the URL from \<^verbatim>\<open>self.server\<close>, \<^verbatim>\<open>get\<close>, then the
  library's check on what \<^verbatim>\<open>get\<close> returned.
\<close>

definition check_connection :: "env \<Rightarrow> zephyr \<Rightarrow> trace \<Rightarrow> (error + unit) \<times> trace" where
  "check_connection E z tr =
     (case format_py EMPTY_CYCLES_REQUEST [server z] of
        Inl e \<Rightarrow> (Inl e, tr)
      | Inr url \<Rightarrow>
          (case get E url None z tr of
             (Inl e, tr') \<Rightarrow> (Inl e, tr')
           | (Inr response, tr') \<Rightarrow>
               (case lib_raise_on_error E response of
                  Some e \<Rightarrow> (Inl e, tr' @ [RaiseOnError response])
                | None \<Rightarrow> (Inr (), tr' @ [RaiseOnError response]))))"

text \<open>
  \<^verbatim>\<open>__init__\<close> (lines 31-46): the assignments (\<open>init_fields\<close>), then
  \<^verbatim>\<open>_check_connection\<close>. An argument left out is \<open>None\<close> here and takes its default from
  \<^verbatim>\<open>config\<close>; \<^verbatim>\<open>basic_auth\<close> is a pair or \<^verbatim>\<open>None\<close>. The headers of a fresh
  \<^verbatim>\<open>requests.Session\<close> are not represented, only the update with \<^verbatim>\<open>_HEADERS\<close>.
\<close>

definition init_fields :: "env \<Rightarrow> string option \<Rightarrow> (string \<times> string) option \<Rightarrow> bool option
                           \<Rightarrow> int option \<Rightarrow> zephyr" where
  "init_fields E server_arg basic_auth verify_arg timeout_arg =
     \<lparr>server = (case server_arg of None \<Rightarrow> SERVER E | Some s \<Rightarrow> s),
      timeout = (case timeout_arg of None \<Rightarrow> TIMEOUT E | Some t \<Rightarrow> t),
      z_session =
        \<lparr>headers = HEADERS,
         auth = (case basic_auth of None \<Rightarrow> (USER E, PASSWORD E) | Some a \<Rightarrow> a),
         verify = (case verify_arg of None \<Rightarrow> VERIFY E | Some v \<Rightarrow> v)\<rparr>,
      z_projects = None\<rparr>"

definition init :: "env \<Rightarrow> string option \<Rightarrow> (string \<times> string) option \<Rightarrow> bool option \<Rightarrow> int option
                    \<Rightarrow> trace \<Rightarrow> (error + zephyr) \<times> trace" where
  "init E server_arg basic_auth verify_arg timeout_arg tr =
     (let z = init_fields E server_arg basic_auth verify_arg timeout_arg
      in case check_connection E z tr of
           (Inl e, tr') \<Rightarrow> (Inl e, tr')
         | (Inr u, tr') \<Rightarrow> (Inr z, tr'))"

text \<open>
  \<^verbatim>\<open>_load_projects\<close> (lines 59-72): open the discovery session on \<^verbatim>\<open>self.server\<close>, list
  the projects, wrap each one, assign \<^verbatim>\<open>self._projects\<close>, close the session. An exception
  before the assignment leaves \<^verbatim>\<open>_projects\<close> as it was.
\<close>

definition load_projects :: "env \<Rightarrow> zephyr \<Rightarrow> trace \<Rightarrow> (error + unit) \<times> zephyr \<times> trace" where
  "load_projects E z tr =
     (let tr1 = tr @ [JiraOpen (server z)] in
      case jira_open E tr (server z) (auth (z_session z)) (timeout z) of
        Some e \<Rightarrow> (Inl e, z, tr1)
      | None \<Rightarrow>
          (let tr2 = tr1 @ [JiraProjects] in
           case jira_projects E tr1 of
             Inl e \<Rightarrow> (Inl e, z, tr2)
           | Inr found \<Rightarrow>
               (let projects = map (\<lambda>x. \<lparr>name = key x, p_id = jp_id x,
                                         p_session = z_session z\<rparr>) found;
                    z' = z\<lparr>z_projects := Some projects\<rparr>;
                    tr3 = tr2 @ [JiraClose]
                in case jira_close E tr2 of
                     Some e \<Rightarrow> (Inl e, z', tr3)
                   | None \<Rightarrow> (Inr (), z', tr3))))"

text \<open>
  The property \<^verbatim>\<open>projects\<close> (lines 48-57): load when \<^verbatim>\<open>_projects\<close> is \<^verbatim>\<open>None\<close>, then
  return \<^verbatim>\<open>_projects\<close>.
\<close>

definition projects :: "env \<Rightarrow> zephyr \<Rightarrow> trace
                        \<Rightarrow> (error + project_res list option) \<times> zephyr \<times> trace" where
  "projects E z tr =
     (if z_projects z = None then
        (case load_projects E z tr of
           (Inl e, z', tr') \<Rightarrow> (Inl e, z', tr')
         | (Inr u, z', tr') \<Rightarrow> (Inr (z_projects z'), z', tr'))
      else (Inr (z_projects z), z, tr))"

text \<open>
  \<^verbatim>\<open>project\<close> (lines 74-84): the projects whose name equals the argument, unpacked as a
  one-element list; any other length raises \<^verbatim>\<open>ValueError\<close>.
\<close>

definition project :: "env \<Rightarrow> string \<Rightarrow> zephyr \<Rightarrow> trace
                       \<Rightarrow> (error + project_res) \<times> zephyr \<times> trace" where
  "project E nm z tr =
     (case projects E z tr of
        (Inl e, z', tr') \<Rightarrow> (Inl e, z', tr')
      | (Inr None, z', tr') \<Rightarrow> (Inl TypeError, z', tr')
      | (Inr (Some ps), z', tr') \<Rightarrow>
          (case filter (\<lambda>x. name x = nm) ps of
             [proj] \<Rightarrow> (Inr proj, z', tr')
           | _ \<Rightarrow> (Inl ValueError, z', tr')))"

text \<open>
  The method \<^verbatim>\<open>raise_on_error\<close> (lines 144-158): a response with status 200 whose content
  holds the marker gets the status 401, then the library's check runs on it. No other
  method of the class calls it.
\<close>

definition raise_on_error :: "env \<Rightarrow> response \<Rightarrow> trace \<Rightarrow> (error + unit) \<times> response \<times> trace" where
  "raise_on_error E response tr =
     (case (if status_code response = 200 then py_in ERROR_DESC (content response)
            else Inr False) of
        Inl e \<Rightarrow> (Inl e, response, tr)
      | Inr marked \<Rightarrow>
          (let response' = (if marked then response\<lparr>status_code := 401\<rparr> else response);
               tr' = tr @ [RaiseOnError (Some response')]
           in case lib_raise_on_error E (Some response') of
                Some e \<Rightarrow> (Inl e, response', tr')
              | None \<Rightarrow> (Inr (), response', tr')))"

subsection \<open>Reading a trace\<close>

text \<open>The URLs requested, the arguments the library's check received, the listings made.\<close>

fun urls :: "trace \<Rightarrow> string list" where
  "urls [] = []"
| "urls (HttpGet u # tr) = u # urls tr"
| "urls (HttpPut u d # tr) = u # urls tr"
| "urls (ev # tr) = urls tr"

fun checked :: "trace \<Rightarrow> response option list" where
  "checked [] = []"
| "checked (RaiseOnError r # tr) = r # checked tr"
| "checked (ev # tr) = checked tr"

fun discoveries :: "trace \<Rightarrow> nat" where
  "discoveries [] = 0"
| "discoveries (JiraProjects # tr) = Suc (discoveries tr)"
| "discoveries (ev # tr) = discoveries tr"

fun puts :: "trace \<Rightarrow> (string \<times> (string \<times> jvalue) list) list" where
  "puts [] = []"
| "puts (HttpPut u d # tr) = (u, d) # puts tr"
| "puts (ev # tr) = puts tr"

subsection \<open>A sample environment\<close>

text \<open>
  A library check of the kind the module relies on: it raises \<^verbatim>\<open>JIRAError\<close> carrying the
  response for a status outside 200-299, and \<^verbatim>\<open>JIRAError\<close> without a response when it is
  given \<^verbatim>\<open>None\<close>.
\<close>

fun status_check :: "response option \<Rightarrow> error option" where
  "status_check None = Some (JIRAError None)"
| "status_check (Some r) =
     (if 200 \<le> status_code r \<and> status_code r < 300 then None else Some (JIRAError (Some r)))"

text \<open>
  A server that answers every request with the same response, behind that check, and a
  discovery session that lists the given projects.
\<close>

definition sample_env :: "response \<Rightarrow> jira_project list \<Rightarrow> env" where
  "sample_env r found =
     \<lparr>SERVER = ''http://jira.example'', USER = ''user'', PASSWORD = ''secret'',
      VERIFY = True, TIMEOUT = 30,
      session_get = (\<lambda>tr s url params t. Inr r),
      session_put = (\<lambda>tr s url d t. Inr r),
      lib_raise_on_error = status_check,
      jira_open = (\<lambda>tr s a t. None),
      jira_projects = (\<lambda>tr. Inr found),
      jira_close = (\<lambda>tr. None)\<rparr>"

definition sample_client :: "string \<Rightarrow> zephyr" where
  "sample_client s =
     \<lparr>server = s, timeout = 30,
      z_session = \<lparr>headers = HEADERS, auth = (''user'', ''secret''), verify = True\<rparr>,
      z_projects = None\<rparr>"

text \<open>Sample responses and resources.\<close>

definition found_response :: response where
  \<open>found_response =
     \<lparr>status_code = 200,
      content = Bytes ''{"executions": [], "totalCount": 0}'',
      json = Some (JObj [(''executions'', JArr []), (''totalCount'', JNum 0)])\<rparr>\<close>

definition denied_response :: response where
  \<open>denied_response =
     \<lparr>status_code = 200,
      content = Bytes ''{"errorDesc": "no permission", "errorId": "ERROR"}'',
      json = Some (JObj [(''errorDesc'', JStr ''no permission''),
                         (''errorId'', JStr ''ERROR'')])\<rparr>\<close>

definition blank_error_response :: response where
  \<open>blank_error_response =
     \<lparr>status_code = 200,
      content = Bytes ''{"errorDesc": "", "errorId": "ERROR"}'',
      json = Some (JObj [(''errorDesc'', JStr []), (''errorId'', JStr ''ERROR'')])\<rparr>\<close>

definition list_response :: response where
  \<open>list_response = \<lparr>status_code = 200, content = Bytes ''[]'', json = Some (JArr [])\<rparr>\<close>

definition unauthorized_response :: response where
  \<open>unauthorized_response =
     \<lparr>status_code = 401, content = Bytes ''Unauthorized'', json = None\<rparr>\<close>

definition denied_text_response :: response where
  \<open>denied_text_response =
     \<lparr>status_code = 200,
      content = Text ''{"errorDesc": "no permission", "errorId": "ERROR"}'',
      json = Some (JObj [(''errorDesc'', JStr ''no permission''),
                         (''errorId'', JStr ''ERROR'')])\<rparr>\<close>

definition nested_marker_response :: response where
  \<open>nested_marker_response =
     \<lparr>status_code = 200,
      content = Bytes ''{"executions": [{"comment": "errorDesc"}]}'',
      json = Some (JObj [(''executions'', JArr [JObj [(''comment'', JStr ''errorDesc'')]])])\<rparr>\<close>

definition sample_folder :: folder where
  "sample_folder = \<lparr>f_project = 10204, f_version = 20418, f_cycle = 3447, f_id = 330\<rparr>"

definition sample_found :: "jira_project list" where
  "sample_found = [\<lparr>key = ''FOO'', jp_id = 1\<rparr>, \<lparr>key = ''BAR'', jp_id = 2\<rparr>,
                   \<lparr>key = ''BAR'', jp_id = 3\<rparr>]"

text \<open>The sample environment with a discovery session whose listing raises.\<close>

definition failing_discovery_env :: env where
  "failing_discovery_env =
     (sample_env found_response sample_found)\<lparr>jira_projects := (\<lambda>tr. Inl TransportError)\<rparr>"

text \<open>Whether a status is in 200-299.\<close>

definition is_2xx :: "response \<Rightarrow> bool" where
  "is_2xx r = (200 \<le> status_code r \<and> status_code r < 300)"

text \<open>Two reads of the property \<^verbatim>\<open>projects\<close> in a row: both results, the client and the trace.\<close>

definition read_twice :: "env \<Rightarrow> zephyr \<Rightarrow> trace
    \<Rightarrow> (error + project_res list option) \<times> (error + project_res list option) \<times> zephyr \<times> trace" where
  "read_twice E z tr =
     (case projects E z tr of
        (r1, z1, tr1) \<Rightarrow> (case projects E z1 tr1 of (r2, z2, tr2) \<Rightarrow> (r1, r2, z2, tr2)))"

section \<open>Properties\<close>

subsection \<open>Formatting and traces\<close>

lemma format_zql:
  "format_py EXECUTIONS_ZQL_URL [s, q] =
     Inr (s @ ''/rest/zapi/latest/zql/executeSearch?zqlQuery='' @ q)"
  by (simp add: EXECUTIONS_ZQL_URL_def ZAPI_URL_def)

lemma format_cycles:
  "format_py EMPTY_CYCLES_REQUEST [s] = Inr (s @ ''/rest/zapi/latest/cycle?expand='')"
  by (simp add: EMPTY_CYCLES_REQUEST_def ZAPI_URL_def)

lemma format_move_three:
  "format_py MOVE_EXEUCTIONS_URL [s, c, f] =
     Inr (s @ ''/rest/zapi/latest/cycle/'' @ c @ ''/move/executions/folder/'' @ f)"
  by (simp add: MOVE_EXEUCTIONS_URL_def ZAPI_URL_def)

lemma format_move_two: "format_py MOVE_EXEUCTIONS_URL [c, f] = Inl IndexError"
  by (simp add: MOVE_EXEUCTIONS_URL_def ZAPI_URL_def)

lemma urls_append: "urls (a @ b) = urls a @ urls b"
  by (induction a rule: urls.induct) simp_all

lemma checked_append: "checked (a @ b) = checked a @ checked b"
  by (induction a rule: checked.induct) simp_all

lemma discoveries_append: "discoveries (a @ b) = discoveries a + discoveries b"
  by (induction a rule: discoveries.induct) simp_all

lemmas sample_defs = sample_env_def sample_client_def ERROR_DESC_def

subsection \<open>The method get\<close>

lemma get_returns_None: "fst (get E url params z tr) = Inr v \<Longrightarrow> v = None"
  by (auto simp: get_def Let_def split: sum.splits option.splits if_splits)

lemma get_trace_error:
  "session_get E tr (z_session z) url params (timeout z) = Inl e \<Longrightarrow>
   get E url params z tr = (Inl e, tr @ [HttpGet url])"
  by (simp add: get_def)

lemma get_trace_response:
  "session_get E tr (z_session z) url params (timeout z) = Inr r \<Longrightarrow>
   snd (get E url params z tr) = tr @ [HttpGet url, RaiseOnError (Some r)]"
  by (auto simp: get_def Let_def split: sum.splits option.splits if_splits)

lemma get_Inr_response:
  "fst (get E url params z tr) = Inr v \<Longrightarrow>
   \<exists>r. session_get E tr (z_session z) url params (timeout z) = Inr r"
  by (cases "session_get E tr (z_session z) url params (timeout z)") (simp_all add: get_def)

lemma get_urls: "urls (snd (get E url params z tr)) = urls tr @ [url]"
  by (cases "session_get E tr (z_session z) url params (timeout z)")
     (simp_all add: get_trace_error get_trace_response urls_append)

lemma get_lib_error:
  assumes "session_get E tr (z_session z) url params (timeout z) = Inr r"
    and "lib_raise_on_error E (Some r) = Some e"
  shows "get E url params z tr = (Inl e, tr @ [HttpGet url, RaiseOnError (Some r)])"
  using assms by (simp add: get_def)

lemma get_truthy_error:
  assumes "session_get E tr (z_session z) url params (timeout z) = Inr r"
    and "lib_raise_on_error E (Some r) = None"
    and "json r = Some (JObj kvs)"
    and "map_of kvs ERROR_DESC = Some v"
    and "truthy v"
  shows "get E url params z tr =
           (Inl (JIRAError None), tr @ [HttpGet url, RaiseOnError (Some r)])"
  using assms by (simp add: get_def)

lemma get_no_error:
  assumes "session_get E tr (z_session z) url params (timeout z) = Inr r"
    and "lib_raise_on_error E (Some r) = None"
    and "json r = Some (JObj kvs)"
    and "map_of kvs ERROR_DESC = None"
  shows "get E url params z tr = (Inr None, tr @ [HttpGet url, RaiseOnError (Some r)])"
  using assms by (simp add: get_def)

subsection \<open>Searching executions\<close>

text \<open>
  Whatever the server answers, \<^verbatim>\<open>executions_zql\<close> ends in an exception: \<^verbatim>\<open>get\<close> either
  raises or returns \<^verbatim>\<open>None\<close>, and \<^verbatim>\<open>None.json()\<close> raises.
\<close>

lemma executions_zql_never_returns: "fst (executions_zql E q z tr) \<noteq> Inr j"
proof -
  let ?u = "server z @ ''/rest/zapi/latest/zql/executeSearch?zqlQuery='' @ q"
  obtain r t where g: "get E ?u None z tr = (r, t)" by (cases "get E ?u None z tr")
  show ?thesis
  proof (cases r)
    case (Inl e)
    with g show ?thesis by (simp add: executions_zql_def format_zql)
  next
    case (Inr v)
    with g get_returns_None [of E ?u None z tr v] have "v = None" by simp
    with g Inr show ?thesis by (simp add: executions_zql_def format_zql)
  qed
qed

lemma executions_zql_urls:
  "urls (snd (executions_zql E q z tr)) =
     urls tr @ [server z @ ''/rest/zapi/latest/zql/executeSearch?zqlQuery='' @ q]"
proof -
  let ?u = "server z @ ''/rest/zapi/latest/zql/executeSearch?zqlQuery='' @ q"
  have "snd (executions_zql E q z tr) = snd (get E ?u None z tr)"
    by (simp add: executions_zql_def format_zql split: prod.splits sum.splits option.splits)
  then show ?thesis by (simp add: get_urls)
qed

text \<open>
  C1. When the GET of \<^verbatim>\<open>executions_zql\<close> comes back with status 200 and a body without
  an error descriptor, the call should return the parsed body. On the code it raises
  \<^verbatim>\<open>AttributeError\<close>: \<^verbatim>\<open>get\<close> validated the response and returned \<^verbatim>\<open>None\<close>.
\<close>

theorem executions_zql_raises_on_success:
  "executions_zql (sample_env found_response sample_found) ''project = FOO''
     (sample_client ''http://jira.example'') [] =
   (Inl AttributeError,
    [HttpGet ''http://jira.example/rest/zapi/latest/zql/executeSearch?zqlQuery=project = FOO'',
     RaiseOnError (Some found_response)])"
  by (simp add: executions_zql_def format_zql get_def sample_defs found_response_def)

subsection \<open>Construction\<close>

lemma check_connection_after_get:
  "fst (get E (server z @ ''/rest/zapi/latest/cycle?expand='') None z tr) = Inr v \<Longrightarrow>
   snd (check_connection E z tr) =
     snd (get E (server z @ ''/rest/zapi/latest/cycle?expand='') None z tr) @ [RaiseOnError v]"
  by (cases "get E (server z @ ''/rest/zapi/latest/cycle?expand='') None z tr")
     (simp add: check_connection_def format_cycles split: option.splits)

lemma check_connection_urls:
  "urls (snd (check_connection E z tr)) =
     urls tr @ [server z @ ''/rest/zapi/latest/cycle?expand='']"
proof -
  let ?u = "server z @ ''/rest/zapi/latest/cycle?expand=''"
  obtain r t where g: "get E ?u None z tr = (r, t)" by (cases "get E ?u None z tr")
  then have "urls (snd (check_connection E z tr)) = urls (snd (get E ?u None z tr))"
    by (cases r) (simp_all add: check_connection_def format_cycles urls_append split: option.splits)
  then show ?thesis by (simp add: get_urls)
qed

lemma init_trace:
  "snd (init E sa ba va ta tr) = snd (check_connection E (init_fields E sa ba va ta) tr)"
  by (simp add: init_def Let_def split: prod.splits sum.splits)

text \<open>
  C2. In a construction whose connectivity GET passes the validation inside \<^verbatim>\<open>get\<close>,
  \<^verbatim>\<open>get\<close> returns \<^verbatim>\<open>None\<close> and \<^verbatim>\<open>_check_connection\<close> then calls the library's check
  with that \<^verbatim>\<open>None\<close>: the trace of the construction is the trace of \<^verbatim>\<open>get\<close> followed by
  that call, and the library's check has run exactly twice, first on the response and
  then on \<^verbatim>\<open>None\<close>.
\<close>

theorem construction_second_check_receives_None:
  assumes z: "z = init_fields E sa ba va ta"
    and g: "fst (get E (server z @ ''/rest/zapi/latest/cycle?expand='') None z tr) = Inr v"
  shows "v = None \<and>
         snd (init E sa ba va ta tr) =
           snd (get E (server z @ ''/rest/zapi/latest/cycle?expand='') None z tr)
             @ [RaiseOnError None] \<and>
         (\<exists>r. checked (snd (init E sa ba va ta tr)) = checked tr @ [Some r, None])"
proof -
  let ?u = "server z @ ''/rest/zapi/latest/cycle?expand=''"
  from g have v: "v = None" by (rule get_returns_None)
  from g have t: "snd (init E sa ba va ta tr) = snd (get E ?u None z tr) @ [RaiseOnError None]"
    unfolding init_trace z [symmetric] v
    by (rule check_connection_after_get [of E z tr v, unfolded v])
  from get_Inr_response [OF g] obtain r
    where r: "session_get E tr (z_session z) ?u None (timeout z) = Inr r" ..
  have "checked (snd (init E sa ba va ta tr)) = checked tr @ [Some r, None]"
    by (simp add: t get_trace_response [OF r] checked_append)
  with v t show ?thesis by blast
qed

theorem construction_second_check_receives_None_witness:
  "snd (init (sample_env found_response sample_found) None None None None []) =
     [HttpGet ''http://jira.example/rest/zapi/latest/cycle?expand='',
      RaiseOnError (Some found_response), RaiseOnError None]"
proof -
  let ?E = "sample_env found_response sample_found"
  let ?z = "init_fields ?E None None None None"
  have g: "fst (get ?E (server ?z @ ''/rest/zapi/latest/cycle?expand='') None ?z []) = Inr None"
    by (simp add: get_def init_fields_def sample_defs found_response_def)
  have s: "snd (get ?E (server ?z @ ''/rest/zapi/latest/cycle?expand='') None ?z []) =
           [HttpGet ''http://jira.example/rest/zapi/latest/cycle?expand='',
            RaiseOnError (Some found_response)]"
    by (simp add: get_def init_fields_def sample_defs found_response_def)
  from construction_second_check_receives_None [OF refl g] show ?thesis by (simp add: s)
qed

subsection \<open>Error normalization\<close>

text \<open>
  C3. A response with status 200 whose body holds the marker should have its status
  rewritten to 401 before the library's check, on the request paths, and so raise what a
  401 raises. The rewrite is in the method \<^verbatim>\<open>raise_on_error\<close> only (last conjunct, on
  \<^verbatim>\<open>str\<close> content), and \<^verbatim>\<open>get\<close> does not call it: the library's check receives the
  response with status 200. When the marker sits below the top level of the body nothing
  raises at all, where a 401 raises \<^verbatim>\<open>JIRAError\<close> with the response; when it is a top-level
  entry, the \<^verbatim>\<open>JIRAError\<close> comes from the test in \<^verbatim>\<open>get\<close> and carries no response.
\<close>

theorem get_leaves_marked_200_unrewritten:
  "status_code nested_marker_response = 200
   \<and> contains ERROR_DESC (raw (content nested_marker_response))
   \<and> get (sample_env nested_marker_response sample_found)
        ''http://jira.example/rest/zapi/latest/cycle?expand='' None
        (sample_client ''http://jira.example'') [] =
      (Inr None, [HttpGet ''http://jira.example/rest/zapi/latest/cycle?expand='',
                  RaiseOnError (Some nested_marker_response)])
   \<and> fst (get (sample_env unauthorized_response sample_found)
        ''http://jira.example/rest/zapi/latest/cycle?expand='' None
        (sample_client ''http://jira.example'') []) = Inl (JIRAError (Some unauthorized_response))
   \<and> status_code denied_response = 200
   \<and> get (sample_env denied_response sample_found)
        ''http://jira.example/rest/zapi/latest/cycle?expand='' None
        (sample_client ''http://jira.example'') [] =
      (Inl (JIRAError None), [HttpGet ''http://jira.example/rest/zapi/latest/cycle?expand='',
                              RaiseOnError (Some denied_response)])
   \<and> checked (snd (snd (raise_on_error (sample_env denied_text_response sample_found)
        denied_text_response []))) = [Some (denied_text_response\<lparr>status_code := 401\<rparr>)]"
  by (simp add: get_def raise_on_error_def Let_def sample_defs nested_marker_response_def
        unauthorized_response_def denied_response_def denied_text_response_def)

subsection \<open>The server field\<close>

lemma load_projects_first:
  "take (Suc (length tr)) (snd (snd (load_projects E z tr))) = tr @ [JiraOpen (server z)]"
  by (simp add: load_projects_def Let_def split: option.splits sum.splits)

text \<open>
  C4, as stated: the \<^verbatim>\<open>server\<close> field is never read, so two clients built with different
  \<^verbatim>\<open>server\<close> arguments under one configuration format the same URLs. On the code two such
  constructions already request different URLs in \<^verbatim>\<open>_check_connection\<close>, and
  \<^verbatim>\<open>executions_zql\<close> on the two clients does too.
\<close>

theorem server_never_read_counterexample:
  "urls (snd (init (sample_env found_response sample_found) (Some ''http://a'') None None None []))
     \<noteq> urls (snd (init (sample_env found_response sample_found) (Some ''http://b'') None None None []))
   \<and> urls (snd (executions_zql (sample_env found_response sample_found) ''project = FOO''
          (init_fields (sample_env found_response sample_found) (Some ''http://a'') None None None) []))
     \<noteq> urls (snd (executions_zql (sample_env found_response sample_found) ''project = FOO''
          (init_fields (sample_env found_response sample_found) (Some ''http://b'') None None None) []))"
  by (simp add: init_def check_connection_def executions_zql_def format_cycles format_zql get_def
        init_fields_def sample_defs found_response_def)

text \<open>
  C4, amended: the \<^verbatim>\<open>server\<close> field holds the constructor's argument, and the constant
  \<^verbatim>\<open>SERVER\<close> of the configuration only when the argument is left out; the field is what
  \<^verbatim>\<open>_check_connection\<close> (also inside the constructor) and \<^verbatim>\<open>executions_zql\<close> put in front of
  the URL they request, and what \<^verbatim>\<open>_load_projects\<close> opens the discovery session on.
\<close>

theorem server_field_formats_urls:
  "server (init_fields E (Some s) ba va ta) = s
   \<and> server (init_fields E None ba va ta) = SERVER E
   \<and> urls (snd (init E sa ba va ta tr)) =
       urls tr @ [server (init_fields E sa ba va ta) @ ''/rest/zapi/latest/cycle?expand='']
   \<and> urls (snd (check_connection E z tr)) =
       urls tr @ [server z @ ''/rest/zapi/latest/cycle?expand='']
   \<and> urls (snd (executions_zql E q z tr)) =
       urls tr @ [server z @ ''/rest/zapi/latest/zql/executeSearch?zqlQuery='' @ q]
   \<and> take (Suc (length tr)) (snd (snd (load_projects E z tr))) = tr @ [JiraOpen (server z)]"
  by (simp add: init_trace check_connection_urls executions_zql_urls load_projects_first)
     (simp add: init_fields_def)

subsection \<open>Moving executions\<close>

text \<open>
  The template has three fields and \<^verbatim>\<open>move_executions\<close> passes two arguments: the call
  ends in \<^verbatim>\<open>IndexError\<close> before anything is sent.
\<close>

lemma move_executions_always: "move_executions E es f z tr = (Inl IndexError, tr)"
  by (simp add: move_executions_def format_move_two)

lemma digits_3447: "digits 3447 = ''3447''"
  by (simp add: digits.simps [of 3447] digits.simps [of 344] digits.simps [of 34]
        digits.simps [of 3])

lemma digits_330: "digits 330 = ''330''"
  by (simp add: digits.simps [of 330] digits.simps [of 33] digits.simps [of 3])

text \<open>
  C5, as stated: \<^verbatim>\<open>move_executions\<close> sends its PUT to
  \<^verbatim>\<open>{server}/rest/zapi/latest/cycle/{cycleId}/{folderId}/move/executions/folder/{folderId}\<close>.
  On the code no PUT is sent for the sample folder, and the module's template filled with
  the server, the cycle id and the folder id is not that URL either.
\<close>

theorem move_url_counterexample:
  "move_executions (sample_env found_response sample_found) [\<lparr>e_id = 7\<rparr>, \<lparr>e_id = 8\<rparr>]
     sample_folder (sample_client ''http://jira.example'') [] = (Inl IndexError, [])
   \<and> format_py MOVE_EXEUCTIONS_URL
        [''http://jira.example'', str_int (f_cycle sample_folder), str_int (f_id sample_folder)]
      \<noteq> Inr ''http://jira.example/rest/zapi/latest/cycle/3447/330/move/executions/folder/330''"
  by (simp add: move_executions_always format_move_three sample_folder_def str_int_def
        digits_3447 digits_330)

text \<open>
  C5, amended: the format string of the move request is
  \<^verbatim>\<open>{server}/rest/zapi/latest/cycle/{cycleId}/move/executions/folder/{folderId}\<close>, with no
  folder id between the cycle id and \<^verbatim>\<open>move\<close>; filled with a server and the cycle and
  folder identifiers of \<open>f\<close> it gives that URL.
\<close>

theorem move_url_template:
  "format_py MOVE_EXEUCTIONS_URL [s, str_int (f_cycle f), str_int (f_id f)] =
     Inr (s @ ''/rest/zapi/latest/cycle/'' @ str_int (f_cycle f) @
          ''/move/executions/folder/'' @ str_int (f_id f))"
  by (simp add: MOVE_EXEUCTIONS_URL_def ZAPI_URL_def)

text \<open>
  C8. \<^verbatim>\<open>move_executions\<close> should send a PUT whose body holds the project id, the version
  id and the execution ids in order, and return when the answer is 200. On the code, for
  the sample folder and two executions, against a server that would answer that very PUT
  with status 200, the call raises \<^verbatim>\<open>IndexError\<close> and no PUT is in the trace.
\<close>

theorem move_executions_raises_before_put:
  "move_executions (sample_env found_response sample_found) [\<lparr>e_id = 7\<rparr>, \<lparr>e_id = 8\<rparr>]
     sample_folder (sample_client ''http://jira.example'') [] = (Inl IndexError, [])
   \<and> puts (snd (move_executions (sample_env found_response sample_found)
        [\<lparr>e_id = 7\<rparr>, \<lparr>e_id = 8\<rparr>] sample_folder (sample_client ''http://jira.example'') [])) = []
   \<and> session_put (sample_env found_response sample_found) []
        (z_session (sample_client ''http://jira.example''))
        ''http://jira.example/rest/zapi/latest/cycle/3447/move/executions/folder/330''
        [(''projectId'', JNum 10204), (''versionId'', JNum 20418),
         (''schedulesList'', JArr [JNum 7, JNum 8])] 30
       = Inr found_response
   \<and> status_code found_response = 200"
  by (simp add: move_executions_def format_move_two sample_env_def found_response_def)

subsection \<open>The error descriptor in a 200 answer\<close>

text \<open>
  C6, as stated: a GET of \<^verbatim>\<open>executions_zql\<close> answered with status 200 and a JSON body that
  has an error descriptor field raises an authorization error. With the field present and
  empty the test \<^verbatim>\<open>if error:\<close> does not fire, and the call ends in \<^verbatim>\<open>AttributeError\<close>.
\<close>

theorem blank_error_descriptor_counterexample:
  "status_code blank_error_response = 200
   \<and> json blank_error_response =
       Some (JObj [(''errorDesc'', JStr []), (''errorId'', JStr ''ERROR'')])
   \<and> map_of [(''errorDesc'', JStr []), (''errorId'', JStr ''ERROR'')] ERROR_DESC = Some (JStr [])
   \<and> fst (executions_zql (sample_env blank_error_response sample_found) ''project = FOO''
        (sample_client ''http://jira.example'') []) = Inl AttributeError"
  by (simp add: executions_zql_def format_zql get_def sample_defs blank_error_response_def)

text \<open>
  C6, amended: when the GET of \<^verbatim>\<open>executions_zql\<close> is answered with status 200, the library's
  check lets the response pass, and the parsed body is an object whose error descriptor is
  a true value in Python's sense (a non-empty string, for one), the call raises
  \<^verbatim>\<open>JIRAError\<close>.
\<close>

theorem truthy_error_descriptor_raises:
  assumes "session_get E tr (z_session z)
             (server z @ ''/rest/zapi/latest/zql/executeSearch?zqlQuery='' @ q) None (timeout z)
           = Inr r"
    and "status_code r = 200"
    and "lib_raise_on_error E (Some r) = None"
    and "json r = Some (JObj kvs)"
    and "map_of kvs ERROR_DESC = Some v"
    and "truthy v"
  shows "fst (executions_zql E q z tr) = Inl (JIRAError None)"
  using get_truthy_error [OF assms(1) assms(3-6)]
  by (simp add: executions_zql_def format_zql)

theorem truthy_error_descriptor_raises_witness:
  "fst (executions_zql (sample_env denied_response sample_found) ''project = FOO''
        (sample_client ''http://jira.example'') []) = Inl (JIRAError None)"
proof -
  let ?E = "sample_env denied_response sample_found"
  let ?z = "sample_client ''http://jira.example''"
  have a: "session_get ?E [] (z_session ?z)
             (server ?z @ ''/rest/zapi/latest/zql/executeSearch?zqlQuery='' @ ''project = FOO'')
             None (timeout ?z)
           = Inr denied_response"
    by (simp add: sample_env_def)
  have b: "status_code denied_response = 200" by (simp add: denied_response_def)
  have c: "lib_raise_on_error ?E (Some denied_response) = None"
    by (simp add: sample_env_def denied_response_def)
  have d: "json denied_response =
             Some (JObj [(''errorDesc'', JStr ''no permission''), (''errorId'', JStr ''ERROR'')])"
    by (simp add: denied_response_def)
  have e: "map_of [(''errorDesc'', JStr ''no permission''), (''errorId'', JStr ''ERROR'')]
             ERROR_DESC = Some (JStr ''no permission'')"
    by (simp add: ERROR_DESC_def)
  have f: "truthy (JStr ''no permission'')" by simp
  from truthy_error_descriptor_raises [OF a b c d e f] show ?thesis .
qed

text \<open>
  C7, as stated: a GET raises on every non-2xx status, and completes without error on
  every answer with status 200, no marker in the body and no error descriptor in the
  parsed JSON. An answer with status 200 and the body \<^verbatim>\<open>[]\<close> is of the second kind, and
  \<^verbatim>\<open>get\<close> raises \<^verbatim>\<open>AttributeError\<close> on it: a list has no \<^verbatim>\<open>get\<close>.
\<close>

theorem list_body_counterexample:
  "status_code list_response = 200
   \<and> \<not> contains ERROR_DESC (raw (content list_response))
   \<and> json list_response = Some (JArr [])
   \<and> lib_raise_on_error (sample_env list_response sample_found) (Some list_response) = None
   \<and> fst (get (sample_env list_response sample_found)
             ''http://jira.example/rest/zapi/latest/zql/executeSearch?zqlQuery=project = FOO''
             None (sample_client ''http://jira.example'') []) = Inl AttributeError"
  by (simp add: get_def sample_defs list_response_def)

text \<open>
  C7, amended: with a library check that raises on every status outside 200-299, a GET
  answered with such a status raises; and a GET answered with status 200, no marker in the
  body and a parsed JSON object without an error descriptor, which the library's check
  lets pass, completes without error.
\<close>

theorem get_raises_or_completes:
  assumes resp: "session_get E tr (z_session z) url params (timeout z) = Inr r"
    and lib: "\<And>r'. \<not> is_2xx r' \<Longrightarrow> lib_raise_on_error E (Some r') \<noteq> None"
  shows "(\<not> is_2xx r \<longrightarrow> isl (fst (get E url params z tr)))
       \<and> (status_code r = 200 \<and> \<not> contains ERROR_DESC (raw (content r))
            \<and> lib_raise_on_error E (Some r) = None
            \<and> json r = Some (JObj kvs) \<and> map_of kvs ERROR_DESC = None
          \<longrightarrow> fst (get E url params z tr) = Inr None)"
proof (intro conjI impI)
  assume "\<not> is_2xx r"
  from lib [OF this] obtain e where "lib_raise_on_error E (Some r) = Some e" by blast
  from get_lib_error [OF resp this] show "isl (fst (get E url params z tr))" by simp
next
  assume "status_code r = 200 \<and> \<not> contains ERROR_DESC (raw (content r))
            \<and> lib_raise_on_error E (Some r) = None
            \<and> json r = Some (JObj kvs) \<and> map_of kvs ERROR_DESC = None"
  then show "fst (get E url params z tr) = Inr None"
    using get_no_error [OF resp, of kvs] by simp
qed

theorem get_raises_or_completes_witness:
  "isl (fst (get (sample_env unauthorized_response sample_found) ''u'' None
               (sample_client ''s'') []))
   \<and> fst (get (sample_env found_response sample_found) ''u'' None (sample_client ''s'') [])
       = Inr None"
proof -
  have lib: "\<And>r r'. \<not> is_2xx r' \<Longrightarrow>
               lib_raise_on_error (sample_env r sample_found) (Some r') \<noteq> None"
    by (simp add: sample_env_def is_2xx_def)
  have a: "session_get (sample_env unauthorized_response sample_found) []
             (z_session (sample_client ''s'')) ''u'' None (timeout (sample_client ''s''))
           = Inr unauthorized_response"
    by (simp add: sample_env_def)
  have b: "session_get (sample_env found_response sample_found) []
             (z_session (sample_client ''s'')) ''u'' None (timeout (sample_client ''s''))
           = Inr found_response"
    by (simp add: sample_env_def)
  have n: "\<not> is_2xx unauthorized_response"
    by (simp add: is_2xx_def unauthorized_response_def)
  have ok: "status_code found_response = 200
            \<and> \<not> contains ERROR_DESC (raw (content found_response))
            \<and> lib_raise_on_error (sample_env found_response sample_found) (Some found_response)
                = None
            \<and> json found_response =
                Some (JObj [(''executions'', JArr []), (''totalCount'', JNum 0)])
            \<and> map_of [(''executions'', JArr []), (''totalCount'', JNum 0)] ERROR_DESC = None"
    by (simp add: found_response_def ERROR_DESC_def sample_env_def)
  from get_raises_or_completes [OF a lib] n
       get_raises_or_completes [OF b lib,
         of "[(''executions'', JArr []), (''totalCount'', JNum 0)]"] ok
  show ?thesis by blast
qed

subsection \<open>The project cache\<close>

lemma projects_loaded: "z_projects z = Some ps \<Longrightarrow> projects E z tr = (Inr (Some ps), z, tr)"
  by (simp add: projects_def)

lemma load_projects_returns:
  assumes "fst (load_projects E z tr) = Inr u"
  shows "\<exists>found. jira_projects E (tr @ [JiraOpen (server z)]) = Inr found
           \<and> load_projects E z tr =
               (Inr (),
                z\<lparr>z_projects := Some (map (\<lambda>x. \<lparr>name = key x, p_id = jp_id x,
                                                  p_session = z_session z\<rparr>) found)\<rparr>,
                tr @ [JiraOpen (server z), JiraProjects, JiraClose])"
  using assms
  by (auto simp: load_projects_def Let_def split: option.splits sum.splits)

lemma projects_first_read:
  assumes "z_projects z = None" and "fst (projects E z tr) = Inr v"
  shows "\<exists>ps. projects E z tr =
           (Inr (Some ps), z\<lparr>z_projects := Some ps\<rparr>,
            tr @ [JiraOpen (server z), JiraProjects, JiraClose])"
proof -
  obtain r z' t where l: "load_projects E z tr = (r, z', t)" by (cases "load_projects E z tr")
  with assms obtain u where "r = Inr u" by (cases r) (simp_all add: projects_def)
  with l have "fst (load_projects E z tr) = Inr u" by simp
  from load_projects_returns [OF this] assms(1) show ?thesis
    by (auto simp: projects_def)
qed

text \<open>
  C9, as stated: on every client, two reads of \<^verbatim>\<open>projects\<close> make the discovery call at
  most once. When the listing raises, \<^verbatim>\<open>_projects\<close> stays \<^verbatim>\<open>None\<close> and the second read
  lists again: two discovery calls.
\<close>

theorem failed_discovery_repeats_counterexample:
  "z_projects (sample_client ''http://jira.example'') = None
   \<and> discoveries (snd (snd (snd (read_twice failing_discovery_env
        (sample_client ''http://jira.example'') [])))) = 2"
  by (simp add: read_twice_def projects_def load_projects_def failing_discovery_env_def
        sample_env_def sample_client_def)

text \<open>
  C9, amended: on a client whose cache is uninitialized, when the first read of
  \<^verbatim>\<open>projects\<close> returns, it returns the loaded collection and leaves it in the cache; the
  second read returns the same collection, changes neither the client nor the trace, and
  the two reads together have made exactly one discovery call.
\<close>

theorem projects_loaded_once:
  assumes "z_projects z = None" and "fst (projects E z tr) = Inr v"
  shows "\<exists>ps. v = Some ps
           \<and> read_twice E z tr =
               (Inr (Some ps), Inr (Some ps), z\<lparr>z_projects := Some ps\<rparr>,
                snd (snd (projects E z tr)))
           \<and> discoveries (snd (snd (snd (read_twice E z tr)))) = Suc (discoveries tr)"
proof -
  let ?t = "tr @ [JiraOpen (server z), JiraProjects, JiraClose]"
  from projects_first_read [OF assms] obtain ps where
    p: "projects E z tr = (Inr (Some ps), z\<lparr>z_projects := Some ps\<rparr>, ?t)"
    by blast
  have q: "projects E (z\<lparr>z_projects := Some ps\<rparr>) ?t =
             (Inr (Some ps), z\<lparr>z_projects := Some ps\<rparr>, ?t)"
    by (rule projects_loaded) simp
  from assms(2) p have "v = Some ps" by simp
  moreover have "read_twice E z tr =
      (Inr (Some ps), Inr (Some ps), z\<lparr>z_projects := Some ps\<rparr>, snd (snd (projects E z tr)))"
    by (simp add: read_twice_def p q)
  moreover have "discoveries (snd (snd (snd (read_twice E z tr)))) = Suc (discoveries tr)"
    by (simp add: read_twice_def p q discoveries_append)
  ultimately show ?thesis by blast
qed

theorem projects_loaded_once_witness:
  "discoveries (snd (snd (snd (read_twice (sample_env found_response sample_found)
      (sample_client ''http://jira.example'') [])))) = 1
   \<and> fst (read_twice (sample_env found_response sample_found)
          (sample_client ''http://jira.example'') [])
      = fst (snd (read_twice (sample_env found_response sample_found)
          (sample_client ''http://jira.example'') []))"
proof -
  let ?E = "sample_env found_response sample_found"
  let ?z = "sample_client ''http://jira.example''"
  have a: "z_projects ?z = None" by (simp add: sample_client_def)
  have "\<exists>v. fst (projects ?E ?z []) = Inr v"
    by (simp add: projects_def load_projects_def sample_env_def sample_client_def)
  then obtain v where b: "fst (projects ?E ?z []) = Inr v" ..
  from projects_loaded_once [OF a b] show ?thesis by auto
qed

text \<open>
  C10. Over the loaded collection, \<^verbatim>\<open>project(name)\<close> returns the one project whose name
  equals the argument, character for character, when there is exactly one; with no match or
  with several the unpacking raises \<^verbatim>\<open>ValueError\<close>.
\<close>

theorem project_unique_match:
  assumes "fst (projects E z tr) = Inr (Some ps)"
  shows "(length (filter (\<lambda>x. name x = nm) ps) = 1 \<longrightarrow>
           (\<exists>p. filter (\<lambda>x. name x = nm) ps = [p] \<and> p \<in> set ps \<and> name p = nm
                \<and> fst (project E nm z tr) = Inr p))
       \<and> (length (filter (\<lambda>x. name x = nm) ps) \<noteq> 1 \<longrightarrow>
           fst (project E nm z tr) = Inl ValueError)"
proof -
  obtain z' t where p: "projects E z tr = (Inr (Some ps), z', t)"
    using assms by (cases "projects E z tr") simp
  show ?thesis
  proof (cases "filter (\<lambda>x. name x = nm) ps")
    case Nil
    with p show ?thesis by (simp add: project_def)
  next
    case (Cons a rest)
    note c = this
    show ?thesis
    proof (cases rest)
      case Nil
      have "a \<in> set (filter (\<lambda>x. name x = nm) ps)" using c by simp
      then have "a \<in> set ps \<and> name a = nm" by simp
      with p c Nil show ?thesis by (simp add: project_def)
    next
      case (Cons b more)
      with p c show ?thesis by (simp add: project_def)
    qed
  qed
qed

theorem project_unique_match_witness:
  "fst (project (sample_env found_response sample_found) ''FOO''
          (sample_client ''http://jira.example'') [])
     = Inr \<lparr>name = ''FOO'', p_id = 1,
            p_session = \<lparr>headers = HEADERS, auth = (''user'', ''secret''), verify = True\<rparr>\<rparr>
   \<and> fst (project (sample_env found_response sample_found) ''BAR''
          (sample_client ''http://jira.example'') []) = Inl ValueError
   \<and> fst (project (sample_env found_response sample_found) ''foo''
          (sample_client ''http://jira.example'') []) = Inl ValueError"
proof -
  let ?E = "sample_env found_response sample_found"
  let ?z = "sample_client ''http://jira.example''"
  let ?s = "\<lparr>headers = HEADERS, auth = (''user'', ''secret''), verify = True\<rparr>"
  let ?ps = "[\<lparr>name = ''FOO'', p_id = 1, p_session = ?s\<rparr>,
              \<lparr>name = ''BAR'', p_id = 2, p_session = ?s\<rparr>,
              \<lparr>name = ''BAR'', p_id = 3, p_session = ?s\<rparr>]"
  have l: "fst (projects ?E ?z []) = Inr (Some ?ps)"
    by (simp add: projects_def load_projects_def sample_env_def sample_client_def
          sample_found_def)
  from project_unique_match [OF l, of "''FOO''"] project_unique_match [OF l, of "''BAR''"]
       project_unique_match [OF l, of "''foo''"]
  show ?thesis by simp
qed


end
